theory Spec2Isabelle
  imports Main "HOL-Library.Sublist" "HOL-Library.Word"
begin

section \<open>Data model\<close>

text \<open>
  The library works on SQLite databases through \<^verbatim>\<open>database/sql\<close>. A database is a finite
  map from table names to tables; a table has the column list that
  \<^verbatim>\<open>PRAGMA table_info\<close> reports (\<^verbatim>\<open>ColumnInfo\<close> of \<^verbatim>\<open>client.go\<close>) and its rows in
  the order a \<^verbatim>\<open>SELECT\<close> without \<^verbatim>\<open>ORDER BY\<close> returns them. A row maps column names to
  cells; a cell is one of SQLite's storage classes (a float is kept as its 64 bits, no
  arithmetic is done on it).
\<close>

datatype cell = Null | Integer int | Real "64 word" | Text string

record ColumnInfo =
  Name :: string
  Type :: string
  NotNull :: bool
  Default :: "string option"
  Primary :: bool

type_synonym row = "string \<rightharpoonup> cell"

record table =
  columns :: "ColumnInfo list"
  rows :: "row list"

type_synonym database = "string \<rightharpoonup> table"

text \<open>Errors of the library are values; \<open>Wrap\<close> is \<^verbatim>\<open>fmt.Errorf("...: %w", err)\<close>.\<close>

datatype error =
    NoSuchTable string
  | NoSuchColumn string
  | ScanError
  | ConstraintFailed string
  | MarshalError
  | InvalidIdentifier string
  | UnknownMode int
  | NoCommonColumns string
  | Wrap string error

text \<open>\<^verbatim>\<open>RenameResult\<close> and \<^verbatim>\<open>RenameMapping\<close> (\<^verbatim>\<open>rename.go\<close>, \<^verbatim>\<open>types.go\<close>).\<close>

record RenameResult =
  Sessions :: nat
  Settings :: nat
  Configs :: nat

record RenameMapping =
  OldName :: string
  NewName :: string

text \<open>
  What \<^verbatim>\<open>json.Unmarshal\<close> produces for a \<^verbatim>\<open>map[string]any\<close>: a map from keys to JSON
  values (numbers are \<^verbatim>\<open>float64\<close>).
\<close>

datatype json =
    JNull
  | JBool bool
  | JNumber "64 word"
  | JString string
  | JArray "json list"
  | JObject "(string \<times> json) list"

text \<open>
  The collaborators the library calls but does not implement are parameters of the
  model: \<^verbatim>\<open>json.Unmarshal\<close> into a \<^verbatim>\<open>map[string]any\<close> (\<open>None\<close> is a decode error),
  \<^verbatim>\<open>json.Marshal\<close> of such a map (\<open>None\<close> is an encode error), Go's formatting of a
  \<^verbatim>\<open>float64\<close> as a string, SQLite's \<^verbatim>\<open>LIKE\<close> operator (pattern first) and SQLite's
  \<^verbatim>\<open>INSERT OR REPLACE INTO t (names) VALUES (vals)\<close> with everything it does to a
  table (defaults, column affinity, conflicts on the primary key and on unique
  indexes). Every theorem that is not about a sample holds for all of them.
\<close>

record platform =
  json_unmarshal :: "string \<Rightarrow> (string \<rightharpoonup> json) option"
  json_marshal :: "(string \<rightharpoonup> json) \<Rightarrow> string option"
  format_float :: "64 word \<Rightarrow> string"
  sql_like :: "string \<Rightarrow> string \<Rightarrow> bool"
  sql_insert_or_replace :: "table \<Rightarrow> string list \<Rightarrow> cell list \<Rightarrow> error + table"

section \<open>Strings\<close>

text \<open>\<^verbatim>\<open>strings.Contains\<close>, \<^verbatim>\<open>strings.Replace(s, old, new, 1)\<close>, \<^verbatim>\<open>strings.TrimPrefix\<close>.\<close>

fun contains :: "string \<Rightarrow> string \<Rightarrow> bool" where
  "contains [] sub = (sub = [])"
| "contains (c # s) sub = (prefix sub (c # s) \<or> contains s sub)"

fun replace_first :: "string \<Rightarrow> string \<Rightarrow> string \<Rightarrow> string" where
  "replace_first [] old new = (if old = [] then new else [])"
| "replace_first (c # s) old new =
     (if prefix old (c # s) then new @ drop (length old) (c # s)
      else c # replace_first s old new)"

definition TrimPrefix :: "string \<Rightarrow> string \<Rightarrow> string" where
  "TrimPrefix s p = (if prefix p s then drop (length p) s else s)"

text \<open>
  \<^verbatim>\<open>strconv.FormatInt\<close> in base 10 and \<^verbatim>\<open>strconv.ParseInt(s, 10, 64)\<close>, which
  \<^verbatim>\<open>database/sql\<close> uses to convert between integers and strings in \<^verbatim>\<open>Scan\<close>.
\<close>

function dec_nat :: "nat \<Rightarrow> string" where
  "dec_nat n =
     (if n < 10 then [''0123456789'' ! n]
      else dec_nat (n div 10) @ [''0123456789'' ! (n mod 10)])"
  by pat_completeness auto
termination
  by (relation "measure id") auto

definition FormatInt :: "int \<Rightarrow> string" where
  "FormatInt i = (if i < 0 then CHR ''-'' # dec_nat (nat (- i)) else dec_nat (nat i))"

definition digit_value :: "char \<Rightarrow> nat" where
  "digit_value c = length (takeWhile (\<lambda>d. d \<noteq> c) ''0123456789'')"

definition parse_digits :: "string \<Rightarrow> nat option" where
  "parse_digits s =
     (if s \<noteq> [] \<and> list_all (\<lambda>c. c \<in> set ''0123456789'') s
      then Some (foldl (\<lambda>n c. 10 * n + digit_value c) 0 s)
      else None)"

definition ParseInt :: "string \<Rightarrow> int option" where
  "ParseInt s =
     (case s of
        [] \<Rightarrow> None
      | c # t \<Rightarrow>
         (case parse_digits (if c = CHR ''-'' \<or> c = CHR ''+'' then t else s) of
            None \<Rightarrow> None
          | Some n \<Rightarrow>
              let i = (if c = CHR ''-'' then - int n else int n)
              in if - (2 ^ 63) \<le> i \<and> i < 2 ^ 63 then Some i else None))"

text \<open>
  A sample of \<^verbatim>\<open>LIKE\<close> for ASCII text, SQLite's defaults: \<^verbatim>\<open>%\<close> matches any sequence of
  characters, \<^verbatim>\<open>_\<close> any single character, every other character matches itself,
  ASCII letters without regard to case; there is no escape character. It is used to
  evaluate the model at concrete inputs only.
\<close>

definition ascii_lower :: "char \<Rightarrow> char" where
  "ascii_lower c =
     (case map_of (zip ''ABCDEFGHIJKLMNOPQRSTUVWXYZ'' ''abcdefghijklmnopqrstuvwxyz'') c of
        None \<Rightarrow> c | Some l \<Rightarrow> l)"

fun like :: "string \<Rightarrow> string \<Rightarrow> bool" where
  "like [] s = (s = [])"
| "like (p # ps) s =
     (if p = CHR ''%''
      then like ps s \<or> (case s of [] \<Rightarrow> False | _ # t \<Rightarrow> like (p # ps) t)
      else (case s of [] \<Rightarrow> False
            | c # t \<Rightarrow> (p = CHR ''_'' \<or> ascii_lower p = ascii_lower c) \<and> like ps t))"

section \<open>The statements the library executes\<close>

definition has_column :: "table \<Rightarrow> string \<Rightarrow> bool" where
  "has_column t c \<longleftrightarrow> c \<in> set (map Name (columns t))"

definition cell_of :: "row \<Rightarrow> string \<Rightarrow> cell" where
  "cell_of r c = (case r c of None \<Rightarrow> Null | Some v \<Rightarrow> v)"

text \<open>
  \<^verbatim>\<open>rows.Scan\<close> into a Go \<^verbatim>\<open>string\<close> or \<^verbatim>\<open>int\<close> (\<^verbatim>\<open>convertAssign\<close> of
  \<^verbatim>\<open>database/sql\<close>): \<^verbatim>\<open>NULL\<close> cannot be converted; a number scanned into a string is
  formatted, and anything scanned into an \<^verbatim>\<open>int\<close> goes through its string form and
  \<^verbatim>\<open>ParseInt\<close>.
\<close>

fun scan_string :: "platform \<Rightarrow> cell \<Rightarrow> error + string" where
  "scan_string P (Text s) = Inr s"
| "scan_string P (Integer i) = Inr (FormatInt i)"
| "scan_string P (Real x) = Inr (format_float P x)"
| "scan_string P Null = Inl ScanError"

fun scan_int :: "platform \<Rightarrow> cell \<Rightarrow> error + int" where
  "scan_int P (Integer i) = Inr i"
| "scan_int P Null = Inl ScanError"
| "scan_int P c =
     (case scan_string P c of
        Inl e \<Rightarrow> Inl e
      | Inr s \<Rightarrow> (case ParseInt s of None \<Rightarrow> Inl ScanError | Some i \<Rightarrow> Inr i))"

text \<open>\<^verbatim>\<open>UPDATE t SET c = v WHERE hit\<close> and \<^verbatim>\<open>SELECT COUNT(*) FROM t WHERE hit\<close>.\<close>

definition update_where :: "(row \<Rightarrow> bool) \<Rightarrow> string \<Rightarrow> cell \<Rightarrow> table \<Rightarrow> table" where
  "update_where hit c v t = t\<lparr>rows := map (\<lambda>r. if hit r then r(c \<mapsto> v) else r) (rows t)\<rparr>"

definition count_where :: "(row \<Rightarrow> bool) \<Rightarrow> table \<Rightarrow> nat" where
  "count_where hit t = length (filter hit (rows t))"

text \<open>\<^verbatim>\<open>DELETE FROM t WHERE hit\<close>.\<close>

definition delete_where :: "(row \<Rightarrow> bool) \<Rightarrow> table \<Rightarrow> table" where
  "delete_where hit t = t\<lparr>rows := filter (\<lambda>r. \<not> hit r) (rows t)\<rparr>"

section \<open>The rename engine (\<^verbatim>\<open>rename.go\<close>)\<close>

text \<open>
  Every function below runs inside the transaction of its caller: it takes the
  transaction's view \<open>tx\<close> of the database and returns the updated view. Failures of
  the connection itself (\<^verbatim>\<open>BeginTx\<close>, \<^verbatim>\<open>Commit\<close>, I/O) are outside the model.
\<close>

text \<open>\<^verbatim>\<open>UPDATE sessions SET `column` = ? WHERE `column` = ?\<close>; the count is \<^verbatim>\<open>RowsAffected\<close>.\<close>

definition renameInSessions ::
  "database \<Rightarrow> string \<Rightarrow> string \<Rightarrow> string \<Rightarrow> error + database \<times> nat" where
  "renameInSessions tx column oldName newName =
     (case tx ''sessions'' of
        None \<Rightarrow> Inl (NoSuchTable ''sessions'')
      | Some t \<Rightarrow>
          if \<not> has_column t column then Inl (NoSuchColumn column)
          else Inr (tx(''sessions'' \<mapsto>
                      update_where (\<lambda>r. r column = Some (Text oldName)) column (Text newName) t),
                    count_where (\<lambda>r. r column = Some (Text oldName)) t))"

text \<open>\<^verbatim>\<open>key LIKE ?\<close> on a row; \<^verbatim>\<open>NULL LIKE ?\<close> is not true.\<close>

definition key_like :: "platform \<Rightarrow> string \<Rightarrow> row \<Rightarrow> bool" where
  "key_like P pat r =
     (case r ''key'' of
        Some (Text k) \<Rightarrow> sql_like P pat k
      | Some (Integer i) \<Rightarrow> sql_like P pat (FormatInt i)
      | _ \<Rightarrow> False)"

definition settings_table :: "database \<Rightarrow> error + table" where
  "settings_table tx =
     (case tx ''settings'' of
        None \<Rightarrow> Inl (NoSuchTable ''settings'')
      | Some t \<Rightarrow>
          if \<not> has_column t ''key'' then Inl (NoSuchColumn ''key'')
          else if \<not> has_column t ''value'' then Inl (NoSuchColumn ''value'')
          else Inr t)"

text \<open>\<^verbatim>\<open>UPDATE settings SET value = ? WHERE key LIKE ? AND value = ?\<close>.\<close>

definition renameSettingsValue ::
  "platform \<Rightarrow> database \<Rightarrow> string \<Rightarrow> string \<Rightarrow> string \<Rightarrow> error + database \<times> nat" where
  "renameSettingsValue P tx keyPattern oldValue newValue =
     (case settings_table tx of
        Inl e \<Rightarrow> Inl e
      | Inr t \<Rightarrow>
          Inr (tx(''settings'' \<mapsto>
                 update_where (\<lambda>r. key_like P keyPattern r \<and> r ''value'' = Some (Text oldValue))
                   ''value'' (Text newValue) t),
               count_where (\<lambda>r. key_like P keyPattern r \<and> r ''value'' = Some (Text oldValue)) t))"

text \<open>
  The first loop of \<^verbatim>\<open>renameSettingsKeys\<close>: scan every selected row into a
  \<^verbatim>\<open>keyValue\<close>; the first failing \<^verbatim>\<open>Scan\<close> ends the function.
\<close>

fun scan_kvs :: "platform \<Rightarrow> row list \<Rightarrow> error + (string \<times> string) list" where
  "scan_kvs P [] = Inr []"
| "scan_kvs P (r # rs) =
     (case scan_string P (cell_of r ''key'') of
        Inl e \<Rightarrow> Inl e
      | Inr k \<Rightarrow>
         (case scan_string P (cell_of r ''value'') of
            Inl e \<Rightarrow> Inl e
          | Inr v \<Rightarrow>
             (case scan_kvs P rs of Inl e \<Rightarrow> Inl e | Inr kvs \<Rightarrow> Inr ((k, v) # kvs))))"

text \<open>
  The second loop: \<^verbatim>\<open>INSERT OR REPLACE INTO settings (key, value) VALUES (?, ?)\<close> with
  the new key, then \<^verbatim>\<open>DELETE FROM settings WHERE key = ?\<close> with the old one.
\<close>

fun migrate_keys ::
  "platform \<Rightarrow> string \<Rightarrow> string \<Rightarrow> (string \<times> string) list \<Rightarrow> table \<Rightarrow> error + table" where
  "migrate_keys P oldPrefix newPrefix [] t = Inr t"
| "migrate_keys P oldPrefix newPrefix ((k, v) # kvs) t =
     (case sql_insert_or_replace P t [''key'', ''value'']
             [Text (newPrefix @ TrimPrefix k oldPrefix), Text v] of
        Inl e \<Rightarrow> Inl e
      | Inr t' \<Rightarrow>
          migrate_keys P oldPrefix newPrefix kvs
            (delete_where (\<lambda>r. r ''key'' = Some (Text k)) t'))"

definition renameSettingsKeys ::
  "platform \<Rightarrow> database \<Rightarrow> string \<Rightarrow> string \<Rightarrow> error + database \<times> nat" where
  "renameSettingsKeys P tx oldPrefix newPrefix =
     (case settings_table tx of
        Inl e \<Rightarrow> Inl e
      | Inr t \<Rightarrow>
         (case scan_kvs P (filter (key_like P (oldPrefix @ ''%'')) (rows t)) of
            Inl e \<Rightarrow> Inl e
          | Inr kvs \<Rightarrow>
             (case migrate_keys P oldPrefix newPrefix kvs t of
                Inl e \<Rightarrow> Inl e
              | Inr t' \<Rightarrow> Inr (tx(''settings'' \<mapsto> t'), length kvs))))"

text \<open>
  \<^verbatim>\<open>renameInConfigsJSON\<close>. The query \<^verbatim>\<open>SELECT id, value FROM configs WHERE class = ?\<close> is
  scanned into \<^verbatim>\<open>configRow\<close>s first; the loop then decides row by row.
\<close>

type_synonym configRow = "int \<times> string"

fun scan_configs :: "platform \<Rightarrow> row list \<Rightarrow> error + configRow list" where
  "scan_configs P [] = Inr []"
| "scan_configs P (r # rs) =
     (case scan_int P (cell_of r ''id'') of
        Inl e \<Rightarrow> Inl e
      | Inr i \<Rightarrow>
         (case scan_string P (cell_of r ''value'') of
            Inl e \<Rightarrow> Inl e
          | Inr v \<Rightarrow>
             (case scan_configs P rs of Inl e \<Rightarrow> Inl e | Inr cs \<Rightarrow> Inr ((i, v) # cs))))"

text \<open>\<^verbatim>\<open>UPDATE configs SET value = ? WHERE id = ?\<close>.\<close>

definition set_config_value :: "int \<Rightarrow> string \<Rightarrow> table \<Rightarrow> table" where
  "set_config_value i v t = update_where (\<lambda>r. r ''id'' = Some (Integer i)) ''value'' (Text v) t"

text \<open>
  The loop over the scanned rows. The result is the table, the counter \<^verbatim>\<open>updated\<close> and
  the error, if any: the Go code returns \<^verbatim>\<open>updated, err\<close> from inside the loop.
\<close>

fun rename_configs ::
  "platform \<Rightarrow> string \<Rightarrow> string \<Rightarrow> configRow list \<Rightarrow> table \<Rightarrow> nat \<Rightarrow> table \<times> nat \<times> error option"
  where
  "rename_configs P oldTitle newTitle [] t updated = (t, updated, None)"
| "rename_configs P oldTitle newTitle ((i, v) # cfgs) t updated =
     (case json_unmarshal P v of
        None \<Rightarrow>
          if contains v (''title: '' @ oldTitle)
          then rename_configs P oldTitle newTitle cfgs
                 (set_config_value i
                    (replace_first v (''title: '' @ oldTitle) (''title: '' @ newTitle)) t)
                 (updated + 1)
          else rename_configs P oldTitle newTitle cfgs t updated
      | Some data \<Rightarrow>
         (case data ''title'' of
            Some (JString title) \<Rightarrow>
              if title \<noteq> oldTitle then rename_configs P oldTitle newTitle cfgs t updated
              else (case json_marshal P (data(''title'' \<mapsto> JString newTitle)) of
                      None \<Rightarrow> (t, updated, Some MarshalError)
                    | Some newJSON \<Rightarrow>
                        rename_configs P oldTitle newTitle cfgs
                          (set_config_value i newJSON t) (updated + 1))
          | _ \<Rightarrow> rename_configs P oldTitle newTitle cfgs t updated))"

definition configs_table :: "database \<Rightarrow> string list \<Rightarrow> error + table" where
  "configs_table tx cols =
     (case tx ''configs'' of
        None \<Rightarrow> Inl (NoSuchTable ''configs'')
      | Some t \<Rightarrow>
         (case filter (\<lambda>c. \<not> has_column t c) cols of
            c # _ \<Rightarrow> Inl (NoSuchColumn c)
          | [] \<Rightarrow> Inr t))"

definition class_is :: "int \<Rightarrow> row \<Rightarrow> bool" where
  "class_is class r \<longleftrightarrow> r ''class'' = Some (Integer class)"

definition renameInConfigsJSON ::
  "platform \<Rightarrow> database \<Rightarrow> int \<Rightarrow> string \<Rightarrow> string \<Rightarrow> database \<times> nat \<times> error option" where
  "renameInConfigsJSON P tx class oldTitle newTitle =
     (case configs_table tx [''id'', ''value'', ''class''] of
        Inl e \<Rightarrow> (tx, 0, Some e)
      | Inr t \<Rightarrow>
         (case scan_configs P (filter (class_is class) (rows t)) of
            Inl e \<Rightarrow> (tx, 0, Some e)
          | Inr cfgs \<Rightarrow>
             (case rename_configs P oldTitle newTitle cfgs t 0 of
                (t', updated, err) \<Rightarrow> (tx(''configs'' \<mapsto> t'), updated, err))))"

text \<open>
  \<^verbatim>\<open>RenameLoadpoint\<close> and \<^verbatim>\<open>RenameVehicle\<close>: one transaction; the deferred
  \<^verbatim>\<open>Rollback\<close> restores the database on every error return, and the result returned
  with an error holds the counts assigned so far.
\<close>

definition RenameLoadpoint ::
  "platform \<Rightarrow> database \<Rightarrow> string \<Rightarrow> string \<Rightarrow> database \<times> RenameResult \<times> error option" where
  "RenameLoadpoint P db oldName newName =
     (case renameInSessions db ''loadpoint'' oldName newName of
        Inl e \<Rightarrow>
          (db, \<lparr>Sessions = 0, Settings = 0, Configs = 0\<rparr>,
           Some (Wrap ''failed to rename loadpoint in sessions'' e))
      | Inr (tx1, n1) \<Rightarrow>
         (case renameSettingsValue P tx1 ''lp%.title'' oldName newName of
            Inl e \<Rightarrow>
              (db, \<lparr>Sessions = n1, Settings = 0, Configs = 0\<rparr>,
               Some (Wrap ''failed to rename loadpoint in settings'' e))
          | Inr (tx2, n2) \<Rightarrow>
             (case renameInConfigsJSON P tx2 5 oldName newName of
                (tx3, n3, Some e) \<Rightarrow>
                  (db, \<lparr>Sessions = n1, Settings = n2, Configs = 0\<rparr>,
                   Some (Wrap ''failed to rename loadpoint in configs'' e))
              | (tx3, n3, None) \<Rightarrow>
                  (tx3, \<lparr>Sessions = n1, Settings = n2, Configs = n3\<rparr>, None))))"

definition RenameVehicle ::
  "platform \<Rightarrow> database \<Rightarrow> string \<Rightarrow> string \<Rightarrow> database \<times> RenameResult \<times> error option" where
  "RenameVehicle P db oldName newName =
     (case renameInSessions db ''vehicle'' oldName newName of
        Inl e \<Rightarrow>
          (db, \<lparr>Sessions = 0, Settings = 0, Configs = 0\<rparr>,
           Some (Wrap ''failed to rename vehicle in sessions'' e))
      | Inr (tx1, n1) \<Rightarrow>
         (case renameSettingsKeys P tx1 (''vehicle.'' @ oldName @ ''.'')
                 (''vehicle.'' @ newName @ ''.'') of
            Inl e \<Rightarrow>
              (db, \<lparr>Sessions = n1, Settings = 0, Configs = 0\<rparr>,
               Some (Wrap ''failed to rename vehicle settings keys'' e))
          | Inr (tx2, n2) \<Rightarrow>
             (case renameInConfigsJSON P tx2 3 oldName newName of
                (tx3, n3, Some e) \<Rightarrow>
                  (db, \<lparr>Sessions = n1, Settings = n2, Configs = 0\<rparr>,
                   Some (Wrap ''failed to rename vehicle in configs'' e))
              | (tx3, n3, None) \<Rightarrow>
                  (tx3, \<lparr>Sessions = n1, Settings = n2, Configs = n3\<rparr>, None))))"

subsection \<open>The counting mode\<close>

text \<open>\<^verbatim>\<open>SELECT COUNT(*) FROM sessions WHERE column = ?\<close>.\<close>

definition count_sessions :: "database \<Rightarrow> string \<Rightarrow> string \<Rightarrow> error + nat" where
  "count_sessions db column name =
     (case db ''sessions'' of
        None \<Rightarrow> Inl (NoSuchTable ''sessions'')
      | Some t \<Rightarrow>
          if \<not> has_column t column then Inl (NoSuchColumn column)
          else Inr (count_where (\<lambda>r. r column = Some (Text name)) t))"

text \<open>\<^verbatim>\<open>SELECT COUNT(*) FROM settings WHERE key LIKE 'lp%.title' AND value = ?\<close>.\<close>

definition count_settings_value :: "platform \<Rightarrow> database \<Rightarrow> string \<Rightarrow> string \<Rightarrow> error + nat" where
  "count_settings_value P db keyPattern name =
     (case settings_table db of
        Inl e \<Rightarrow> Inl e
      | Inr t \<Rightarrow>
          Inr (count_where (\<lambda>r. key_like P keyPattern r \<and> r ''value'' = Some (Text name)) t))"

text \<open>\<^verbatim>\<open>SELECT COUNT(*) FROM settings WHERE key LIKE ?\<close>; only the key column is read.\<close>

definition count_settings_keys :: "platform \<Rightarrow> database \<Rightarrow> string \<Rightarrow> error + nat" where
  "count_settings_keys P db keyPattern =
     (case db ''settings'' of
        None \<Rightarrow> Inl (NoSuchTable ''settings'')
      | Some t \<Rightarrow>
          if \<not> has_column t ''key'' then Inl (NoSuchColumn ''key'')
          else Inr (count_where (key_like P keyPattern) t))"

text \<open>
  \<^verbatim>\<open>countConfigsWithTitle\<close>: \<^verbatim>\<open>SELECT value FROM configs WHERE class = ?\<close>, scanned and
  tested row by row; a failing \<^verbatim>\<open>Scan\<close> returns \<^verbatim>\<open>0, err\<close>.
\<close>

fun count_titles :: "platform \<Rightarrow> string \<Rightarrow> row list \<Rightarrow> nat \<Rightarrow> error + nat" where
  "count_titles P title [] count = Inr count"
| "count_titles P title (r # rs) count =
     (case scan_string P (cell_of r ''value'') of
        Inl e \<Rightarrow> Inl e
      | Inr v \<Rightarrow>
         (case json_unmarshal P v of
            None \<Rightarrow>
              if contains v (''title: '' @ title) then count_titles P title rs (count + 1)
              else count_titles P title rs count
          | Some data \<Rightarrow>
             (case data ''title'' of
                Some (JString t) \<Rightarrow>
                  if t = title then count_titles P title rs (count + 1)
                  else count_titles P title rs count
              | _ \<Rightarrow> count_titles P title rs count)))"

definition countConfigsWithTitle :: "platform \<Rightarrow> database \<Rightarrow> int \<Rightarrow> string \<Rightarrow> error + nat" where
  "countConfigsWithTitle P db class title =
     (case configs_table db [''value'', ''class''] of
        Inl e \<Rightarrow> Inl e
      | Inr t \<Rightarrow> count_titles P title (filter (class_is class) (rows t)) 0)"

definition RenameLoadpointDryRun ::
  "platform \<Rightarrow> database \<Rightarrow> string \<Rightarrow> string \<Rightarrow> RenameResult \<times> error option" where
  "RenameLoadpointDryRun P db oldName newName =
     (case count_sessions db ''loadpoint'' oldName of
        Inl e \<Rightarrow> (\<lparr>Sessions = 0, Settings = 0, Configs = 0\<rparr>, Some e)
      | Inr n1 \<Rightarrow>
         (case count_settings_value P db ''lp%.title'' oldName of
            Inl e \<Rightarrow> (\<lparr>Sessions = n1, Settings = 0, Configs = 0\<rparr>, Some e)
          | Inr n2 \<Rightarrow>
             (case countConfigsWithTitle P db 5 oldName of
                Inl e \<Rightarrow> (\<lparr>Sessions = n1, Settings = n2, Configs = 0\<rparr>, Some e)
              | Inr n3 \<Rightarrow> (\<lparr>Sessions = n1, Settings = n2, Configs = n3\<rparr>, None))))"

definition RenameVehicleDryRun ::
  "platform \<Rightarrow> database \<Rightarrow> string \<Rightarrow> string \<Rightarrow> RenameResult \<times> error option" where
  "RenameVehicleDryRun P db oldName newName =
     (case count_sessions db ''vehicle'' oldName of
        Inl e \<Rightarrow> (\<lparr>Sessions = 0, Settings = 0, Configs = 0\<rparr>, Some e)
      | Inr n1 \<Rightarrow>
         (case count_settings_keys P db (''vehicle.'' @ oldName @ ''.%'') of
            Inl e \<Rightarrow> (\<lparr>Sessions = n1, Settings = 0, Configs = 0\<rparr>, Some e)
          | Inr n2 \<Rightarrow>
             (case countConfigsWithTitle P db 3 oldName of
                Inl e \<Rightarrow> (\<lparr>Sessions = n1, Settings = n2, Configs = 0\<rparr>, Some e)
              | Inr n3 \<Rightarrow> (\<lparr>Sessions = n1, Settings = n2, Configs = n3\<rparr>, None))))"

section \<open>Table introspection (\<^verbatim>\<open>client.go\<close>)\<close>

record TransferOptions =
  Mode :: int
  Tables :: "string list"
  DryRun :: bool
  OnProgress :: bool
  LoadpointRenames :: "RenameMapping list"
  VehicleRenames :: "RenameMapping list"

text \<open>
  \<^verbatim>\<open>OnProgress\<close> is a callback; the model records whether it is set and lists its calls
  among the events of a run. \<^verbatim>\<open>ValidateIdentifier\<close> is the regular expression
  \<^verbatim>\<open>^[a-zA-Z_][a-zA-Z0-9_]*$\<close>.
\<close>

definition ident_start :: "char \<Rightarrow> bool" where
  "ident_start c \<longleftrightarrow>
     c \<in> set ''abcdefghijklmnopqrstuvwxyzABCDEFGHIJKLMNOPQRSTUVWXYZ_''"

definition ident_char :: "char \<Rightarrow> bool" where
  "ident_char c \<longleftrightarrow> ident_start c \<or> c \<in> set ''0123456789''"

fun ValidateIdentifier :: "string \<Rightarrow> error option" where
  "ValidateIdentifier [] = Some (InvalidIdentifier [])"
| "ValidateIdentifier (c # cs) =
     (if ident_start c \<and> list_all ident_char cs then None
      else Some (InvalidIdentifier (c # cs)))"

definition TableExists :: "database \<Rightarrow> string \<Rightarrow> bool" where
  "TableExists db name \<longleftrightarrow> db name \<noteq> None"

text \<open>\<^verbatim>\<open>PRAGMA table_info\<close> of a table that does not exist returns no rows and no error.\<close>

definition GetTableColumns :: "database \<Rightarrow> string \<Rightarrow> ColumnInfo list" where
  "GetTableColumns db table = (case db table of None \<Rightarrow> [] | Some t \<Rightarrow> columns t)"

definition GetRowCount :: "database \<Rightarrow> string \<Rightarrow> error + nat" where
  "GetRowCount db table =
     (case db table of
        None \<Rightarrow> Inl (Wrap (''failed to count rows in '' @ table) (NoSuchTable table))
      | Some t \<Rightarrow> Inr (length (rows t)))"

definition GetConfigTables :: "string list" where
  "GetConfigTables = [''settings'', ''configs'', ''caches'']"

definition GetMetricsTables :: "string list" where
  "GetMetricsTables = [''meters'', ''sessions'', ''grid_sessions'']"

definition GetAllTables :: "string list" where
  "GetAllTables = GetConfigTables @ GetMetricsTables"

definition ResolveTables :: "TransferOptions \<Rightarrow> error + string list" where
  "ResolveTables opts =
     (if Tables opts \<noteq> [] then
        (case filter (\<lambda>t. ValidateIdentifier t \<noteq> None) (Tables opts) of
           t # _ \<Rightarrow> Inl (InvalidIdentifier t)
         | [] \<Rightarrow> Inr (Tables opts))
      else if Mode opts = 0 then Inr GetConfigTables
      else if Mode opts = 1 then Inr GetMetricsTables
      else if Mode opts = 2 then Inr GetAllTables
      else Inl (UnknownMode (Mode opts)))"

section \<open>Transfer (\<^verbatim>\<open>transfer.go\<close>)\<close>

text \<open>What a run prints or reports through \<^verbatim>\<open>OnProgress\<close>, in order.\<close>

datatype event =
    DryRunHeader nat
  | MissingTable string
  | TableRowCount string nat
  | LoadpointPreview string string RenameResult
  | VehiclePreview string string RenameResult
  | SkippedTable string
  | SkippedColumn string string
  | Progress string nat

definition intersectColumns :: "ColumnInfo list \<Rightarrow> ColumnInfo list \<Rightarrow> ColumnInfo list" where
  "intersectColumns src dst = filter (\<lambda>c. Name c \<in> set (map Name dst)) src"

text \<open>
  The row loop of \<^verbatim>\<open>copyTableWithTx\<close>: one \<^verbatim>\<open>INSERT OR REPLACE\<close> per source row; a
  failing insert returns the rows copied so far and the error.
\<close>

fun copy_rows ::
  "platform \<Rightarrow> string list \<Rightarrow> cell list list \<Rightarrow> table \<Rightarrow> nat \<Rightarrow> table \<times> nat \<times> error option"
  where
  "copy_rows P names [] t copied = (t, copied, None)"
| "copy_rows P names (vals # rest) t copied =
     (case sql_insert_or_replace P t names vals of
        Inl e \<Rightarrow> (t, copied, Some (Wrap ''failed to insert row'' e))
      | Inr t' \<Rightarrow> copy_rows P names rest t' (copied + 1))"

text \<open>
  \<^verbatim>\<open>copyTableWithTx\<close>: \<open>tx\<close> is the destination as the transaction sees it, \<open>dst\<close> the
  destination handle the column list is read from. The result is the transaction's
  view, the count, the error and the warnings printed.
\<close>

definition copyTableWithTx ::
  "platform \<Rightarrow> database \<Rightarrow> database \<Rightarrow> database \<Rightarrow> string \<Rightarrow>
   database \<times> nat \<times> error option \<times> event list" where
  "copyTableWithTx P tx src dst table =
     (let srcCols = GetTableColumns src table;
          dstCols = GetTableColumns dst table;
          commonCols = intersectColumns srcCols dstCols
      in if commonCols = [] then (tx, 0, Some (NoCommonColumns table), [])
         else
           let warnings = map (\<lambda>c. SkippedColumn table (Name c))
                            (filter (\<lambda>c. Name c \<notin> set (map Name dstCols)) srcCols)
           in case GetRowCount src table of
                Inl e \<Rightarrow> (tx, 0, Some e, warnings)
              | Inr count \<Rightarrow>
                  if count = 0 then (tx, 0, None, warnings)
                  else
                    let colNames = map Name commonCols;
                        srcRows = map (\<lambda>r. map (cell_of r) colNames)
                                    (case src table of None \<Rightarrow> [] | Some st \<Rightarrow> rows st)
                    in case tx table of
                         None \<Rightarrow>
                           (tx, 0, Some (Wrap ''failed to insert row'' (NoSuchTable table)),
                            warnings)
                       | Some t \<Rightarrow>
                          (case copy_rows P colNames srcRows t 0 of
                             (t', copied, err) \<Rightarrow> (tx(table \<mapsto> t'), copied, err, warnings)))"

text \<open>The dry run of \<^verbatim>\<open>Transfer\<close>: the table loop and the two preview loops.\<close>

fun dry_run_tables :: "database \<Rightarrow> database \<Rightarrow> string list \<Rightarrow> event list \<times> error option" where
  "dry_run_tables src dst [] = ([], None)"
| "dry_run_tables src dst (table # ts) =
     (if \<not> TableExists dst table
      then (case dry_run_tables src dst ts of (ev, err) \<Rightarrow> (MissingTable table # ev, err))
      else case GetRowCount src table of
             Inl e \<Rightarrow> ([], Some e)
           | Inr count \<Rightarrow>
              (case dry_run_tables src dst ts of
                 (ev, err) \<Rightarrow> (TableRowCount table count # ev, err)))"

fun preview_loadpoints ::
  "platform \<Rightarrow> database \<Rightarrow> RenameMapping list \<Rightarrow> event list \<times> error option" where
  "preview_loadpoints P src [] = ([], None)"
| "preview_loadpoints P src (rename # rs) =
     (case RenameLoadpointDryRun P src (OldName rename) (NewName rename) of
        (result, Some e) \<Rightarrow> ([], Some e)
      | (result, None) \<Rightarrow>
         (case preview_loadpoints P src rs of
            (ev, err) \<Rightarrow> (LoadpointPreview (OldName rename) (NewName rename) result # ev, err)))"

fun preview_vehicles ::
  "platform \<Rightarrow> database \<Rightarrow> RenameMapping list \<Rightarrow> event list \<times> error option" where
  "preview_vehicles P src [] = ([], None)"
| "preview_vehicles P src (rename # rs) =
     (case RenameVehicleDryRun P src (OldName rename) (NewName rename) of
        (result, Some e) \<Rightarrow> ([], Some e)
      | (result, None) \<Rightarrow>
         (case preview_vehicles P src rs of
            (ev, err) \<Rightarrow> (VehiclePreview (OldName rename) (NewName rename) result # ev, err)))"

text \<open>The real run: the table loop inside the destination transaction.\<close>

fun copy_tables ::
  "platform \<Rightarrow> database \<Rightarrow> database \<Rightarrow> bool \<Rightarrow> string list \<Rightarrow> database \<Rightarrow>
   database \<times> event list \<times> error option" where
  "copy_tables P src dst progress [] tx = (tx, [], None)"
| "copy_tables P src dst progress (table # ts) tx =
     (if \<not> TableExists dst table
      then (case copy_tables P src dst progress ts tx of
              (tx', ev, err) \<Rightarrow> (tx', SkippedTable table # ev, err))
      else case copyTableWithTx P tx src dst table of
             (tx1, count, Some e, warnings) \<Rightarrow>
               (tx1, warnings, Some (Wrap (''failed to copy table '' @ table) e))
           | (tx1, count, None, warnings) \<Rightarrow>
              (case copy_tables P src dst progress ts tx1 of
                 (tx', ev, err) \<Rightarrow>
                   (tx', warnings @ (if progress then [Progress table count] else []) @ ev,
                    err)))"

text \<open>The renames after the commit, each in its own transaction, in list order.\<close>

fun apply_loadpoint_renames ::
  "platform \<Rightarrow> database \<Rightarrow> RenameMapping list \<Rightarrow> database \<times> error option" where
  "apply_loadpoint_renames P dst [] = (dst, None)"
| "apply_loadpoint_renames P dst (rename # rs) =
     (case RenameLoadpoint P dst (OldName rename) (NewName rename) of
        (dst', result, Some e) \<Rightarrow> (dst', Some (Wrap ''failed to rename loadpoint'' e))
      | (dst', result, None) \<Rightarrow> apply_loadpoint_renames P dst' rs)"

fun apply_vehicle_renames ::
  "platform \<Rightarrow> database \<Rightarrow> RenameMapping list \<Rightarrow> database \<times> error option" where
  "apply_vehicle_renames P dst [] = (dst, None)"
| "apply_vehicle_renames P dst (rename # rs) =
     (case RenameVehicle P dst (OldName rename) (NewName rename) of
        (dst', result, Some e) \<Rightarrow> (dst', Some (Wrap ''failed to rename vehicle'' e))
      | (dst', result, None) \<Rightarrow> apply_vehicle_renames P dst' rs)"

text \<open>
  \<^verbatim>\<open>Transfer\<close> returns an error; the model returns with it both databases as the run
  leaves them and the events of the run. On an error inside the table loop the deferred
  \<^verbatim>\<open>Rollback\<close> discards the transaction's view; \<^verbatim>\<open>Commit\<close> makes it the destination.
\<close>

record outcome =
  src_after :: database
  dst_after :: database
  failure :: "error option"
  events :: "event list"

definition dry_run :: "platform \<Rightarrow> database \<Rightarrow> database \<Rightarrow> TransferOptions \<Rightarrow> string list \<Rightarrow>
    event list \<times> error option" where
  "dry_run P src dst opts tables =
     (case dry_run_tables src dst tables of
        (ev1, Some e) \<Rightarrow> (DryRunHeader (length tables) # ev1, Some e)
      | (ev1, None) \<Rightarrow>
         (case preview_loadpoints P src (LoadpointRenames opts) of
            (ev2, Some e) \<Rightarrow> (DryRunHeader (length tables) # ev1 @ ev2, Some e)
          | (ev2, None) \<Rightarrow>
             (case preview_vehicles P src (VehicleRenames opts) of
                (ev3, err) \<Rightarrow> (DryRunHeader (length tables) # ev1 @ ev2 @ ev3, err))))"

definition Transfer :: "platform \<Rightarrow> database \<Rightarrow> database \<Rightarrow> TransferOptions \<Rightarrow> outcome" where
  "Transfer P src dst opts =
     (case ResolveTables opts of
        Inl e \<Rightarrow>
          \<lparr>src_after = src, dst_after = dst,
           failure = Some (Wrap ''failed to resolve tables'' e), events = []\<rparr>
      | Inr tables \<Rightarrow>
          if DryRun opts then
            (case dry_run P src dst opts tables of
               (ev, err) \<Rightarrow> \<lparr>src_after = src, dst_after = dst, failure = err, events = ev\<rparr>)
          else
            (case copy_tables P src dst (OnProgress opts) tables dst of
               (tx, ev, Some e) \<Rightarrow>
                 \<lparr>src_after = src, dst_after = dst, failure = Some e, events = ev\<rparr>
             | (tx, ev, None) \<Rightarrow>
                (case apply_loadpoint_renames P tx (LoadpointRenames opts) of
                   (dst1, Some e) \<Rightarrow>
                     \<lparr>src_after = src, dst_after = dst1, failure = Some e, events = ev\<rparr>
                 | (dst1, None) \<Rightarrow>
                    (case apply_vehicle_renames P dst1 (VehicleRenames opts) of
                       (dst2, err) \<Rightarrow>
                         \<lparr>src_after = src, dst_after = dst2, failure = err, events = ev\<rparr>))))"

section \<open>Sample data\<close>

text \<open>
  A sample of \<^verbatim>\<open>INSERT OR REPLACE INTO t (names) VALUES (vals)\<close> for tables whose only
  uniqueness constraint is the primary key and whose cells already have the storage
  class of their column. A column that is not named gets its default (the default's
  text, as a sample). An \<^verbatim>\<open>INTEGER PRIMARY KEY\<close> that is \<^verbatim>\<open>NULL\<close> gets the largest id plus one. A
  \<^verbatim>\<open>NOT NULL\<close> column that is \<^verbatim>\<open>NULL\<close> takes its default under \<^verbatim>\<open>OR REPLACE\<close>, and the
  statement fails when there is none. Rows that agree with the new row on the whole
  primary key (no part of it \<^verbatim>\<open>NULL\<close>) are deleted, then the new row is added.
\<close>

definition pk_columns :: "table \<Rightarrow> string list" where
  "pk_columns t = map Name (filter Primary (columns t))"

definition is_rowid_alias :: "table \<Rightarrow> ColumnInfo \<Rightarrow> bool" where
  "is_rowid_alias t c \<longleftrightarrow>
     Primary c \<and> pk_columns t = [Name c] \<and> map ascii_lower (Type c) = ''integer''"

definition rowid_value :: "string \<Rightarrow> row \<Rightarrow> int" where
  "rowid_value c r = (case r c of Some (Integer i) \<Rightarrow> i | _ \<Rightarrow> 0)"

definition next_rowid :: "table \<Rightarrow> string \<Rightarrow> int" where
  "next_rowid t c =
     (case rows t of [] \<Rightarrow> 1
      | r # rs \<Rightarrow> fold (\<lambda>r' m. max m (rowid_value c r')) rs (rowid_value c r) + 1)"

definition default_cell :: "ColumnInfo \<Rightarrow> cell" where
  "default_cell c = (case Default c of None \<Rightarrow> Null | Some d \<Rightarrow> Text d)"

definition new_cell :: "table \<Rightarrow> (string \<rightharpoonup> cell) \<Rightarrow> ColumnInfo \<Rightarrow> cell" where
  "new_cell t given c =
     (let v = (case given (Name c) of None \<Rightarrow> default_cell c | Some v \<Rightarrow> v) in
      if v = Null \<and> is_rowid_alias t c then Integer (next_rowid t (Name c))
      else if v = Null \<and> NotNull c then default_cell c
      else v)"

definition new_row :: "table \<Rightarrow> string list \<Rightarrow> cell list \<Rightarrow> row" where
  "new_row t names vals =
     map_of (map (\<lambda>c. (Name c, new_cell t (map_of (zip names vals)) c)) (columns t))"

definition pk_conflict :: "table \<Rightarrow> row \<Rightarrow> row \<Rightarrow> bool" where
  "pk_conflict t r r' \<longleftrightarrow>
     pk_columns t \<noteq> [] \<and>
     (\<forall>c \<in> set (pk_columns t). r c = r' c \<and> r c \<noteq> None \<and> r c \<noteq> Some Null)"

definition sample_insert_or_replace ::
  "table \<Rightarrow> string list \<Rightarrow> cell list \<Rightarrow> error + table" where
  "sample_insert_or_replace t names vals =
     (case filter (\<lambda>n. \<not> has_column t n) names of
        n # _ \<Rightarrow> Inl (NoSuchColumn n)
      | [] \<Rightarrow>
         (let r = new_row t names vals in
          case filter (\<lambda>c. NotNull c \<and> r (Name c) = Some Null) (columns t) of
            c # _ \<Rightarrow> Inl (ConstraintFailed (Name c))
          | [] \<Rightarrow> Inr (t\<lparr>rows := filter (\<lambda>r'. \<not> pk_conflict t r r') (rows t) @ [r]\<rparr>)))"

text \<open>
  A small database in the shape of the one the tests create (\<^verbatim>\<open>testutil_test.go\<close>), and
  collaborators that agree with \<^verbatim>\<open>encoding/json\<close> on its two blobs: they decode exactly
  these two texts and encode objects with the keys \<^verbatim>\<open>title\<close> and \<^verbatim>\<open>charger\<close> or
  \<^verbatim>\<open>title\<close> and \<^verbatim>\<open>type\<close>, keys sorted. The sample formatter of floats is a stub: no sample
  holds a float. They are used to evaluate the model at concrete inputs only.
\<close>

definition sample_unmarshal :: "string \<Rightarrow> (string \<rightharpoonup> json) option" where
  \<open>sample_unmarshal s =
     (if s = ''{"title":"Garage","charger":"db:1"}''
      then Some [''title'' \<mapsto> JString ''Garage'', ''charger'' \<mapsto> JString ''db:1'']
      else if s = ''{"title":"e-Golf","type":"vw"}''
      then Some [''title'' \<mapsto> JString ''e-Golf'', ''type'' \<mapsto> JString ''vw'']
      else None)\<close>

definition sample_marshal :: "(string \<rightharpoonup> json) \<Rightarrow> string option" where
  \<open>sample_marshal m =
     (case (m ''title'', m ''charger'', m ''type'') of
        (Some (JString t), Some (JString c), None) \<Rightarrow>
          Some (''{"charger":"'' @ c @ ''","title":"'' @ t @ ''"}'')
      | (Some (JString t), None, Some (JString y)) \<Rightarrow>
          Some (''{"title":"'' @ t @ ''","type":"'' @ y @ ''"}'')
      | _ \<Rightarrow> None)\<close>

definition sample_platform :: platform where
  "sample_platform =
     \<lparr>json_unmarshal = sample_unmarshal, json_marshal = sample_marshal,
      format_float = (\<lambda>x. ''0''), sql_like = like,
      sql_insert_or_replace = sample_insert_or_replace\<rparr>"

definition column_info :: "string \<Rightarrow> string \<Rightarrow> bool \<Rightarrow> ColumnInfo" where
  "column_info n ty pk = \<lparr>Name = n, Type = ty, NotNull = False, Default = None, Primary = pk\<rparr>"

definition sample_db :: database where
  \<open>sample_db =
     [''sessions'' \<mapsto>
        \<lparr>columns = [column_info ''id'' ''INTEGER'' True, column_info ''loadpoint'' ''TEXT'' False,
                    column_info ''vehicle'' ''TEXT'' False],
         rows = [[''id'' \<mapsto> Integer 1, ''loadpoint'' \<mapsto> Text ''Garage'', ''vehicle'' \<mapsto> Text ''e-Golf''],
                 [''id'' \<mapsto> Integer 3, ''loadpoint'' \<mapsto> Text ''Garage'', ''vehicle'' \<mapsto> Null],
                 [''id'' \<mapsto> Integer 4, ''loadpoint'' \<mapsto> Text ''eBikes'', ''vehicle'' \<mapsto> Text ''e-Bike'']]\<rparr>,
      ''settings'' \<mapsto>
        \<lparr>columns = [column_info ''key'' ''TEXT'' True, column_info ''value'' ''TEXT'' False],
         rows = [[''key'' \<mapsto> Text ''lp1.title'', ''value'' \<mapsto> Text ''Garage''],
                 [''key'' \<mapsto> Text ''lp1.mode'', ''value'' \<mapsto> Text ''pv''],
                 [''key'' \<mapsto> Text ''vehicle.e-Golf.minSoc'', ''value'' \<mapsto> Text ''25'']]\<rparr>,
      ''configs'' \<mapsto>
        \<lparr>columns = [column_info ''id'' ''INTEGER'' True, column_info ''class'' ''INTEGER'' False,
                    column_info ''value'' ''TEXT'' False],
         rows = [[''id'' \<mapsto> Integer 1, ''class'' \<mapsto> Integer 5,
                  ''value'' \<mapsto> Text ''{"title":"Garage","charger":"db:1"}''],
                 [''id'' \<mapsto> Integer 2, ''class'' \<mapsto> Integer 3,
                  ''value'' \<mapsto> Text ''{"title":"e-Golf","type":"vw"}'']]\<rparr>]\<close>


text \<open>
  A source and a destination whose \<^verbatim>\<open>configs\<close> tables share no column, and options
  for a real run over \<^verbatim>\<open>settings\<close> and \<^verbatim>\<open>configs\<close> with one rename.
\<close>

definition drift_src :: database where
  "drift_src =
     [''settings'' \<mapsto>
        \<lparr>columns = [column_info ''key'' ''TEXT'' True, column_info ''value'' ''TEXT'' False],
         rows = [[''key'' \<mapsto> Text ''lp1.title'', ''value'' \<mapsto> Text ''Garage'']]\<rparr>,
      ''configs'' \<mapsto>
        \<lparr>columns = [column_info ''blob'' ''TEXT'' False],
         rows = [[''blob'' \<mapsto> Text ''x'']]\<rparr>]"

definition drift_dst :: database where
  "drift_dst =
     [''settings'' \<mapsto>
        \<lparr>columns = [column_info ''key'' ''TEXT'' True, column_info ''value'' ''TEXT'' False],
         rows = []\<rparr>,
      ''configs'' \<mapsto>
        \<lparr>columns = [column_info ''id'' ''INTEGER'' True, column_info ''value'' ''TEXT'' False],
         rows = []\<rparr>]"

definition drift_opts :: TransferOptions where
  "drift_opts =
     \<lparr>Mode = 0, Tables = [''settings'', ''configs''], DryRun = False, OnProgress = True,
      LoadpointRenames = [\<lparr>OldName = ''Garage'', NewName = ''Carport''\<rparr>],
      VehicleRenames = []\<rparr>"

text \<open>
  The sample database with one more settings row under the vehicle's prefix whose value
  is \<^verbatim>\<open>NULL\<close> (\<^verbatim>\<open>settings.value\<close> is a nullable \<^verbatim>\<open>TEXT\<close> column).
\<close>

definition null_value_db :: database where
  "null_value_db =
     sample_db(''settings'' \<mapsto>
        \<lparr>columns = [column_info ''key'' ''TEXT'' True, column_info ''value'' ''TEXT'' False],
         rows = [[''key'' \<mapsto> Text ''lp1.title'', ''value'' \<mapsto> Text ''Garage''],
                 [''key'' \<mapsto> Text ''lp1.mode'', ''value'' \<mapsto> Text ''pv''],
                 [''key'' \<mapsto> Text ''vehicle.e-Golf.minSoc'', ''value'' \<mapsto> Text ''25''],
                 [''key'' \<mapsto> Text ''vehicle.e-Golf.plan'', ''value'' \<mapsto> Null]]\<rparr>)"

section \<open>Evaluation\<close>

lemmas engine_defs = renameInSessions_def renameSettingsValue_def renameSettingsKeys_def
  renameInConfigsJSON_def settings_table_def configs_table_def has_column_def update_where_def
  count_where_def delete_where_def key_like_def class_is_def cell_of_def set_config_value_def
  sample_insert_or_replace_def new_row_def new_cell_def pk_conflict_def pk_columns_def
  is_rowid_alias_def default_cell_def TrimPrefix_def ascii_lower_def
  sample_platform_def sample_unmarshal_def sample_marshal_def column_info_def

lemmas transfer_defs = Transfer_def ResolveTables_def ident_start_def ident_char_def
  TableExists_def GetTableColumns_def GetRowCount_def intersectColumns_def copyTableWithTx_def
  dry_run_def GetConfigTables_def GetMetricsTables_def GetAllTables_def

section \<open>The counting mode agrees with the mutating mode\<close>

lemma renameInSessions_count:
  "renameInSessions tx col old new = Inr (tx', n) \<Longrightarrow> count_sessions tx col old = Inr n"
  by (auto simp: renameInSessions_def count_sessions_def split: option.splits if_splits)

lemma renameInSessions_other:
  "renameInSessions tx col old new = Inr (tx', n) \<Longrightarrow> k \<noteq> ''sessions'' \<Longrightarrow> tx' k = tx k"
  by (auto simp: renameInSessions_def split: option.splits if_splits)

lemma renameSettingsValue_count:
  "renameSettingsValue P tx pat old new = Inr (tx', n) \<Longrightarrow> count_settings_value P tx pat old = Inr n"
  by (auto simp: renameSettingsValue_def count_settings_value_def split: sum.splits)

lemma renameSettingsValue_other:
  "renameSettingsValue P tx pat old new = Inr (tx', n) \<Longrightarrow> k \<noteq> ''settings'' \<Longrightarrow> tx' k = tx k"
  by (auto simp: renameSettingsValue_def split: sum.splits)

lemma scan_kvs_length: "scan_kvs P rs = Inr kvs \<Longrightarrow> length kvs = length rs"
  by (induction rs arbitrary: kvs) (auto split: sum.splits)

lemma renameSettingsKeys_count:
  "renameSettingsKeys P tx op np = Inr (tx', n) \<Longrightarrow> count_settings_keys P tx (op @ ''%'') = Inr n"
  by (auto simp: renameSettingsKeys_def count_settings_keys_def settings_table_def count_where_def
      dest: scan_kvs_length split: sum.splits option.splits if_splits)

lemma renameSettingsKeys_other:
  "renameSettingsKeys P tx op np = Inr (tx', n) \<Longrightarrow> k \<noteq> ''settings'' \<Longrightarrow> tx' k = tx k"
  by (auto simp: renameSettingsKeys_def split: sum.splits)

lemma rename_configs_count:
  "scan_configs P rs = Inr cfgs \<Longrightarrow> rename_configs P old new cfgs t u = (t', n, None) \<Longrightarrow>
   count_titles P old rs u = Inr n"
proof (induction rs arbitrary: cfgs t u)
  case Nil
  then show ?case by simp
next
  case (Cons r rs)
  then show ?case
    by (auto split: sum.splits option.splits json.splits if_splits)
qed

lemma configs_table_sub:
  "configs_table tx cs = Inr t \<Longrightarrow> set cs' \<subseteq> set cs \<Longrightarrow> configs_table tx cs' = Inr t"
proof -
  assume a: "configs_table tx cs = Inr t" and b: "set cs' \<subseteq> set cs"
  from a obtain "tx ''configs'' = Some t" and "filter (\<lambda>c. \<not> has_column t c) cs = []"
    by (auto simp: configs_table_def split: option.splits list.splits)
  moreover from this b have "filter (\<lambda>c. \<not> has_column t c) cs' = []"
    by (auto simp: filter_empty_conv)
  ultimately show ?thesis by (simp add: configs_table_def)
qed

lemma renameInConfigsJSON_count:
  assumes "renameInConfigsJSON P tx class old new = (tx', n, None)"
  shows "countConfigsWithTitle P tx class old = Inr n"
proof -
  from assms obtain t cfgs t' where
    t: "configs_table tx [''id'', ''value'', ''class''] = Inr t" and
    s: "scan_configs P (filter (class_is class) (rows t)) = Inr cfgs" and
    r: "rename_configs P old new cfgs t 0 = (t', n, None)"
    by (simp add: renameInConfigsJSON_def split: sum.splits prod.splits)
  have "configs_table tx [''value'', ''class''] = Inr t"
    using t by (rule configs_table_sub) simp
  moreover have "count_titles P old (filter (class_is class) (rows t)) 0 = Inr n"
    using s r by (rule rename_configs_count)
  ultimately show ?thesis by (simp add: countConfigsWithTitle_def)
qed

lemma RenameLoadpoint_dry_run:
  assumes "RenameLoadpoint P db old new = (db', r, None)"
  shows "RenameLoadpointDryRun P db old new = (r, None)"
proof -
  from assms obtain tx1 n1 tx2 n2 n3 where
    s: "renameInSessions db ''loadpoint'' old new = Inr (tx1, n1)" and
    v: "renameSettingsValue P tx1 ''lp%.title'' old new = Inr (tx2, n2)" and
    c: "renameInConfigsJSON P tx2 5 old new = (db', n3, None)" and
    r: "r = \<lparr>Sessions = n1, Settings = n2, Configs = n3\<rparr>"
    by (auto simp: RenameLoadpoint_def split: sum.splits prod.splits option.splits)
  have 1: "count_sessions db ''loadpoint'' old = Inr n1"
    using s by (rule renameInSessions_count)
  have "tx1 ''settings'' = db ''settings''"
    using s by (rule renameInSessions_other) simp
  then have 2: "count_settings_value P db ''lp%.title'' old = Inr n2"
    using renameSettingsValue_count[OF v]
    by (simp add: count_settings_value_def settings_table_def)
  have "tx2 ''configs'' = db ''configs''"
    using renameSettingsValue_other[OF v, of "''configs''"]
      renameInSessions_other[OF s, of "''configs''"] by simp
  then have 3: "countConfigsWithTitle P db 5 old = Inr n3"
    using renameInConfigsJSON_count[OF c]
    by (simp add: countConfigsWithTitle_def configs_table_def)
  show ?thesis by (simp add: RenameLoadpointDryRun_def 1 2 3 r)
qed

lemma RenameVehicle_dry_run:
  assumes "RenameVehicle P db old new = (db', r, None)"
  shows "RenameVehicleDryRun P db old new = (r, None)"
proof -
  from assms obtain tx1 n1 tx2 n2 n3 where
    s: "renameInSessions db ''vehicle'' old new = Inr (tx1, n1)" and
    v: "renameSettingsKeys P tx1 (''vehicle.'' @ old @ ''.'') (''vehicle.'' @ new @ ''.'')
          = Inr (tx2, n2)" and
    c: "renameInConfigsJSON P tx2 3 old new = (db', n3, None)" and
    r: "r = \<lparr>Sessions = n1, Settings = n2, Configs = n3\<rparr>"
    by (auto simp: RenameVehicle_def split: sum.splits prod.splits option.splits)
  have 1: "count_sessions db ''vehicle'' old = Inr n1"
    using s by (rule renameInSessions_count)
  have "tx1 ''settings'' = db ''settings''"
    using s by (rule renameInSessions_other) simp
  then have 2: "count_settings_keys P db ((''vehicle.'' @ old @ ''.'') @ ''%'') = Inr n2"
    using renameSettingsKeys_count[OF v]
    by (simp only: count_settings_keys_def)
  have "tx2 ''configs'' = db ''configs''"
    using renameSettingsKeys_other[OF v, of "''configs''"]
      renameInSessions_other[OF s, of "''configs''"] by simp
  then have 3: "countConfigsWithTitle P db 3 old = Inr n3"
    using renameInConfigsJSON_count[OF c]
    by (simp add: countConfigsWithTitle_def configs_table_def)
  show ?thesis using 1 2 3 by (simp add: RenameVehicleDryRun_def r)
qed


text \<open>
  C1 (as amended). Whenever \<^verbatim>\<open>RenameLoadpoint\<close> (\<^verbatim>\<open>RenameVehicle\<close>) succeeds on a
  database and reports a \<^verbatim>\<open>RenameResult\<close>, \<^verbatim>\<open>RenameLoadpointDryRun\<close> (\<^verbatim>\<open>RenameVehicleDryRun\<close>) on the
  same, unchanged database succeeds and returns the same three counts.
\<close>

theorem dry_run_equals_rename:
  "(RenameLoadpoint P db old new = (db1, r1, None) \<longrightarrow>
      RenameLoadpointDryRun P db old new = (r1, None)) \<and>
   (RenameVehicle P db old new = (db2, r2, None) \<longrightarrow>
      RenameVehicleDryRun P db old new = (r2, None))"
proof (intro conjI impI)
  assume "RenameLoadpoint P db old new = (db1, r1, None)"
  then show "RenameLoadpointDryRun P db old new = (r1, None)"
    by (rule RenameLoadpoint_dry_run)
next
  assume "RenameVehicle P db old new = (db2, r2, None)"
  then show "RenameVehicleDryRun P db old new = (r2, None)"
    by (rule RenameVehicle_dry_run)
qed


theorem dry_run_equals_rename_witness:
  "snd (RenameLoadpoint sample_platform sample_db ''Garage'' ''Carport'') =
     (\<lparr>Sessions = 2, Settings = 1, Configs = 1\<rparr>, None) \<and>
   RenameLoadpointDryRun sample_platform sample_db ''Garage'' ''Carport'' =
     (\<lparr>Sessions = 2, Settings = 1, Configs = 1\<rparr>, None) \<and>
   snd (RenameVehicle sample_platform sample_db ''e-Golf'' ''ID.4'') =
     (\<lparr>Sessions = 1, Settings = 1, Configs = 1\<rparr>, None) \<and>
   RenameVehicleDryRun sample_platform sample_db ''e-Golf'' ''ID.4'' =
     (\<lparr>Sessions = 1, Settings = 1, Configs = 1\<rparr>, None)"
proof -
  have l: "snd (RenameLoadpoint sample_platform sample_db ''Garage'' ''Carport'') =
      (\<lparr>Sessions = 2, Settings = 1, Configs = 1\<rparr>, None)"
    by (simp add: RenameLoadpoint_def engine_defs sample_db_def)
  have v: "snd (RenameVehicle sample_platform sample_db ''e-Golf'' ''ID.4'') =
      (\<lparr>Sessions = 1, Settings = 1, Configs = 1\<rparr>, None)"
    by (simp add: RenameVehicle_def engine_defs sample_db_def)
  from l have l': "RenameLoadpoint sample_platform sample_db ''Garage'' ''Carport'' =
      (fst (RenameLoadpoint sample_platform sample_db ''Garage'' ''Carport''),
       \<lparr>Sessions = 2, Settings = 1, Configs = 1\<rparr>, None)"
    by (metis prod.collapse)
  from v have v': "RenameVehicle sample_platform sample_db ''e-Golf'' ''ID.4'' =
      (fst (RenameVehicle sample_platform sample_db ''e-Golf'' ''ID.4''),
       \<lparr>Sessions = 1, Settings = 1, Configs = 1\<rparr>, None)"
    by (metis prod.collapse)
  show ?thesis
    using l v l' v'
      dry_run_equals_rename [of sample_platform sample_db "''Garage''" "''Carport''"
        "fst (RenameLoadpoint sample_platform sample_db ''Garage'' ''Carport'')"
        "\<lparr>Sessions = 2, Settings = 1, Configs = 1\<rparr>" _ "undefined"]
      dry_run_equals_rename [of sample_platform sample_db "''e-Golf''" "''ID.4''" _
        "undefined"
        "fst (RenameVehicle sample_platform sample_db ''e-Golf'' ''ID.4'')"
        "\<lparr>Sessions = 1, Settings = 1, Configs = 1\<rparr>"]
    by blast
qed

section \<open>Transfer: rollback and dry run\<close>

lemma loadpoint_renames_error:
  "apply_loadpoint_renames P d rs = (d', Some e) \<Longrightarrow> \<exists>e'. e = Wrap ''failed to rename loadpoint'' e'"
  by (induction rs arbitrary: d) (auto split: prod.splits option.splits)

lemma vehicle_renames_error:
  "apply_vehicle_renames P d rs = (d', Some e) \<Longrightarrow> \<exists>e'. e = Wrap ''failed to rename vehicle'' e'"
  by (induction rs arbitrary: d) (auto split: prod.splits option.splits)

text \<open>
  C3. In a real run, when copying a table fails (\<^verbatim>\<open>Transfer\<close> returns
  \<^verbatim>\<open>failed to copy table ...\<close>, whatever the cause, a missing common column included),
  the destination is exactly what it was before the run: nothing a table copy wrote
  remains and no rename has been applied.
\<close>

theorem copy_failure_rolls_back:
  assumes "\<not> DryRun opts"
    and "failure (Transfer P src dst opts) = Some (Wrap (''failed to copy table '' @ table) e)"
  shows "dst_after (Transfer P src dst opts) = dst"
proof (cases "ResolveTables opts")
  case (Inl a)
  then show ?thesis by (simp add: Transfer_def)
next
  case (Inr tables)
  obtain tx ev err where c: "copy_tables P src dst (OnProgress opts) tables dst = (tx, ev, err)"
    by (cases "copy_tables P src dst (OnProgress opts) tables dst") auto
  show ?thesis
  proof (cases err)
    case (Some a)
    then show ?thesis using Inr c assms(1) by (simp add: Transfer_def)
  next
    case None
    obtain d1 e1 where l: "apply_loadpoint_renames P tx (LoadpointRenames opts) = (d1, e1)"
      by (cases "apply_loadpoint_renames P tx (LoadpointRenames opts)") auto
    obtain d2 e2 where v: "apply_vehicle_renames P d1 (VehicleRenames opts) = (d2, e2)"
      by (cases "apply_vehicle_renames P d1 (VehicleRenames opts)") auto
    show ?thesis
    proof (cases e1)
      case (Some a)
      with l obtain e' where "a = Wrap ''failed to rename loadpoint'' e'"
        using loadpoint_renames_error by blast
      with Some None Inr c l assms show ?thesis by (simp add: Transfer_def)
    next
      case n1: None
      show ?thesis
      proof (cases e2)
        case (Some a)
        with v obtain e' where "a = Wrap ''failed to rename vehicle'' e'"
          using vehicle_renames_error by blast
        with Some n1 None Inr c l v assms show ?thesis by (simp add: Transfer_def)
      next
        case n2: None
        with n1 None Inr c l v assms show ?thesis by (simp add: Transfer_def)
      qed
    qed
  qed
qed


theorem copy_failure_rolls_back_witness:
  "\<not> DryRun drift_opts \<and>
   rows (the (fst (copyTableWithTx sample_platform drift_dst drift_src drift_dst ''settings'')
                ''settings'')) \<noteq> [] \<and>
   failure (Transfer sample_platform drift_src drift_dst drift_opts) =
     Some (Wrap (''failed to copy table '' @ ''configs'') (NoCommonColumns ''configs'')) \<and>
   dst_after (Transfer sample_platform drift_src drift_dst drift_opts) = drift_dst"
proof -
  have a: "\<not> DryRun drift_opts" by (simp add: drift_opts_def)
  have b: "failure (Transfer sample_platform drift_src drift_dst drift_opts) =
      Some (Wrap (''failed to copy table '' @ ''configs'') (NoCommonColumns ''configs''))"
    by (simp add: transfer_defs engine_defs drift_src_def drift_dst_def drift_opts_def)
  have c: "rows (the (fst (copyTableWithTx sample_platform drift_dst drift_src drift_dst
      ''settings'') ''settings'')) \<noteq> []"
    by (simp add: transfer_defs engine_defs drift_src_def drift_dst_def)
  show ?thesis using a b c copy_failure_rolls_back [OF a b] by simp
qed

text \<open>
  C8. A dry run of \<^verbatim>\<open>Transfer\<close> leaves both databases as they were, whether it ends
  with an error or not; in particular no table's row count changes.
\<close>

theorem transfer_dry_run_changes_nothing:
  assumes "DryRun opts"
  shows "src_after (Transfer P src dst opts) = src \<and> dst_after (Transfer P src dst opts) = dst \<and>
    (\<forall>table. GetRowCount (src_after (Transfer P src dst opts)) table = GetRowCount src table \<and>
       GetRowCount (dst_after (Transfer P src dst opts)) table = GetRowCount dst table)"
  using assms by (simp add: Transfer_def split: sum.splits prod.splits)

theorem transfer_dry_run_changes_nothing_witness:
  "DryRun (drift_opts\<lparr>DryRun := True\<rparr>) \<and>
   failure (Transfer sample_platform drift_dst drift_src (drift_opts\<lparr>DryRun := True\<rparr>)) \<noteq> None \<and>
   src_after (Transfer sample_platform drift_dst drift_src (drift_opts\<lparr>DryRun := True\<rparr>)) = drift_dst \<and>
   dst_after (Transfer sample_platform drift_dst drift_src (drift_opts\<lparr>DryRun := True\<rparr>)) = drift_src \<and>
   GetRowCount (dst_after (Transfer sample_platform drift_dst drift_src
      (drift_opts\<lparr>DryRun := True\<rparr>))) ''settings'' = Inr 1"
proof -
  have a: "DryRun (drift_opts\<lparr>DryRun := True\<rparr>)" by simp
  have b: "failure (Transfer sample_platform drift_dst drift_src
      (drift_opts\<lparr>DryRun := True\<rparr>)) \<noteq> None"
    by (simp add: transfer_defs engine_defs RenameLoadpointDryRun_def count_sessions_def
        drift_src_def drift_dst_def drift_opts_def)
  have c: "GetRowCount drift_src ''settings'' = Inr 1"
    by (simp add: GetRowCount_def drift_src_def)
  show ?thesis
    using a b c transfer_dry_run_changes_nothing [OF a, of sample_platform drift_dst drift_src]
    by simp
qed

text \<open>
  C1 as stated fails without that success: on a database where a settings row under the
  vehicle's prefix holds \<^verbatim>\<open>NULL\<close>, the
  counting mode counts the row and reports no error, while the mutating mode fails in
  \<^verbatim>\<open>rows.Scan\<close> and returns only the sessions count: the two results differ.
\<close>

theorem dry_run_differs_on_null_value:
  "RenameVehicleDryRun sample_platform null_value_db ''e-Golf'' ''ID.4'' =
     (\<lparr>Sessions = 1, Settings = 2, Configs = 1\<rparr>, None) \<and>
   snd (RenameVehicle sample_platform null_value_db ''e-Golf'' ''ID.4'') =
     (\<lparr>Sessions = 1, Settings = 0, Configs = 0\<rparr>,
      Some (Wrap ''failed to rename vehicle settings keys'' ScanError))"
  by (simp add: RenameVehicleDryRun_def RenameVehicle_def count_sessions_def
      count_settings_keys_def countConfigsWithTitle_def engine_defs null_value_db_def
      sample_db_def)

end
